theory Spec2Isabelle
  imports Complex_Main
begin

section \<open>Numbers: float64 values\<close>

text \<open>
  The module computes on numpy \<open>float64\<close> values. A value is modelled by the real number
  it denotes, with the one piece of IEEE-754 structure the code can observe kept apart: the
  sign of zero (\<open>np.arctan2\<close> tells \<open>-0.0\<close> from \<open>0.0\<close>). \<open>F 0\<close> is \<open>+0.0\<close>, the value
  of the Python literals \<open>0\<close> and \<open>0.\<close>; \<open>NegZero\<close> is \<open>-0.0\<close>. Infinities and NaN
  are not modelled: every statement below is about finite inputs.

  The rounding of each arithmetic result is a parameter \<open>rnd\<close> of every operation:
  \<open>exact\<close> computes in the real numbers (the reading under which the formulas of the
  documentation are equations), \<open>binary64\<close> rounds to the nearest double, ties to even.
  The exponent is not bounded in either: a number beyond \<open>max_float64\<close> stands for the
  infinity that the operation overflows to, and \<open>isfinite\<close> is the test that
  \<open>numpy.ma\<close> applies to the result of \<open>**\<close> and of \<open>sqrt\<close>. Subnormal numbers
  and underflow are not modelled.
\<close>

datatype float64 = F real | NegZero

fun val :: "float64 \<Rightarrow> real" where
  "val (F r) = r"
| "val NegZero = 0"

fun signbit :: "float64 \<Rightarrow> bool" where
  "signbit (F r) = (r < 0)"
| "signbit NegZero = True"

definition exact :: "real \<Rightarrow> real" where
  "exact x = x"

definition round_half_even :: "real \<Rightarrow> int" where
  "round_half_even y =
     (let n = \<lfloor>y\<rfloor>; d = y - of_int n
      in if d < 1 / 2 then n
         else if 1 / 2 < d then n + 1
         else if even n then n else n + 1)"

definition binary64 :: "real \<Rightarrow> real" where
  "binary64 x =
     (if x = 0 then 0
      else let e = \<lfloor>log 2 \<bar>x\<bar>\<rfloor>;
               ulp = 2 powr (of_int e - 52)
           in ulp * of_int (round_half_even (x / ulp)))"

definition max_float64 :: real where
  "max_float64 = (2 - 1 / 2 ^ 52) * 2 ^ 1023"

definition isfinite :: "float64 \<Rightarrow> bool" where
  "isfinite x = (\<bar>val x\<bar> \<le> max_float64)"

fun fneg :: "float64 \<Rightarrow> float64" where
  "fneg (F r) = (if r = 0 then NegZero else F (- r))"
| "fneg NegZero = F 0"

definition fabs :: "float64 \<Rightarrow> float64" where
  "fabs x = F \<bar>val x\<bar>"

definition fadd :: "(real \<Rightarrow> real) \<Rightarrow> float64 \<Rightarrow> float64 \<Rightarrow> float64" where
  "fadd rnd x y =
     (if x = NegZero \<and> y = NegZero then NegZero else F (rnd (val x + val y)))"

definition fmul :: "(real \<Rightarrow> real) \<Rightarrow> float64 \<Rightarrow> float64 \<Rightarrow> float64" where
  "fmul rnd x y =
     (let r = rnd (val x * val y)
      in if r = 0 \<and> signbit x \<noteq> signbit y then NegZero else F r)"

fun fsin :: "(real \<Rightarrow> real) \<Rightarrow> float64 \<Rightarrow> float64" where
  "fsin rnd (F r) = F (rnd (sin r))"
| "fsin rnd NegZero = NegZero"

definition fcos :: "(real \<Rightarrow> real) \<Rightarrow> float64 \<Rightarrow> float64" where
  "fcos rnd x = F (rnd (cos (val x)))"

fun fsqrt :: "(real \<Rightarrow> real) \<Rightarrow> float64 \<Rightarrow> float64" where
  "fsqrt rnd (F r) = F (rnd (sqrt r))"
| "fsqrt rnd NegZero = NegZero"

text \<open>\<open>np.radians(x)\<close> is \<open>x * (pi / 180)\<close> and \<open>np.degrees(x)\<close> is \<open>x * (180 / pi)\<close>.\<close>

definition fradians :: "(real \<Rightarrow> real) \<Rightarrow> float64 \<Rightarrow> float64" where
  "fradians rnd x = fmul rnd x (F (rnd (pi / 180)))"

definition fdegrees :: "(real \<Rightarrow> real) \<Rightarrow> float64 \<Rightarrow> float64" where
  "fdegrees rnd x = fmul rnd x (F (rnd (180 / pi)))"

text \<open>
  \<open>x % 360.\<close> on floats: the C \<open>fmod\<close> (exact, with the sign of \<open>x\<close>), then \<open>360\<close>
  is added to a negative remainder, and a zero remainder takes the sign of the divisor.
\<close>

definition cfmod :: "real \<Rightarrow> real \<Rightarrow> real" where
  "cfmod a b =
     a - b * of_int (if 0 \<le> a / b then \<lfloor>a / b\<rfloor> else \<lceil>a / b\<rceil>)"

definition fmod360 :: "(real \<Rightarrow> real) \<Rightarrow> float64 \<Rightarrow> float64" where
  "fmod360 rnd x =
     (let m = cfmod (val x) 360
      in if m = 0 then F 0
         else if m < 0 then F (rnd (m + 360))
         else F m)"

text \<open>
  \<open>np.arctan2(y, x)\<close>. With \<open>y\<close> a zero the result is a zero or \<open>\<plusminus>pi\<close>, of the sign of
  \<open>y\<close>, according to the sign bit of \<open>x\<close>; otherwise it is the angle of the point
  \<open>(x, y)\<close> in \<open>(-pi, pi]\<close>, on which the sign of a zero \<open>x\<close> has no effect.
\<close>

definition atan2r :: "real \<Rightarrow> real \<Rightarrow> real" where
  "atan2r y x =
     (if 0 < x then arctan (y / x)
      else if x < 0 then (if 0 \<le> y then arctan (y / x) + pi else arctan (y / x) - pi)
      else if 0 < y then pi / 2
      else if y < 0 then - (pi / 2)
      else 0)"

definition farctan2 :: "(real \<Rightarrow> real) \<Rightarrow> float64 \<Rightarrow> float64 \<Rightarrow> float64" where
  "farctan2 rnd y x =
     (if val y = 0 then
        (if signbit x then (if signbit y then F (rnd (- pi)) else F (rnd pi))
         else (if signbit y then NegZero else F 0))
      else F (rnd (atan2r (val y) (val x))))"

section \<open>Masked arrays\<close>

text \<open>
  A \<open>numpy.ma\<close> array keeps, for every position, the stored number and a mask bit; masking
  a position sets the bit and leaves the number where it is. The code reads the stored
  number of a masked position again (in the comparisons that select the positions to snap),
  so both are modelled. An argument is either 0-dimensional (a Python number, or the
  constant \<open>ma.masked\<close>, which is \<open>None\<close>) or a 1-dimensional field.
\<close>

record elem =
  data :: float64
  mask :: bool

datatype marray = Scalar "float64 option" | Field "elem list"

datatype error = AssertionError | ValueError | IndexError

definition plain :: "real \<Rightarrow> elem" where
  "plain x = \<lparr>data = F x, mask = False\<rparr>"

definition hidden :: "real \<Rightarrow> elem" where
  "hidden x = \<lparr>data = F x, mask = True\<rparr>"


text \<open>
  A numpy ufunc (\<open>np.radians\<close>, \<open>np.degrees\<close>, \<open>np.fabs\<close>, \<open>np.arctan2\<close>, unary minus,
  \<open>%\<close>) applied to masked arrays computes on the stored numbers of all positions and
  joins the masks.
\<close>

definition np_ufunc :: "(float64 \<Rightarrow> float64) \<Rightarrow> elem \<Rightarrow> elem" where
  "np_ufunc f e = \<lparr>data = f (data e), mask = mask e\<rparr>"

definition np_ufunc2 :: "(float64 \<Rightarrow> float64 \<Rightarrow> float64) \<Rightarrow> elem \<Rightarrow> elem \<Rightarrow> elem" where
  "np_ufunc2 f a b = \<lparr>data = f (data a) (data b), mask = (mask a \<or> mask b)\<rparr>"

text \<open>
  The \<open>numpy.ma\<close> operations (\<open>ma.sin\<close>, \<open>ma.cos\<close>, \<open>*\<close>, \<open>+\<close>, \<open>**\<close>) put the
  stored number of the (first) operand back at every masked position of the result.
  \<open>**\<close> (\<open>ma.power\<close>) also masks every position whose result is not finite and stores
  the fill value there; \<open>ma.sqrt\<close> also masks the positions whose number is negative or
  whose root is not finite, which is where the number itself is not.
\<close>

definition ma_unary :: "(float64 \<Rightarrow> float64) \<Rightarrow> elem \<Rightarrow> elem" where
  "ma_unary f e = \<lparr>data = (if mask e then data e else f (data e)), mask = mask e\<rparr>"

definition ma_binary :: "(float64 \<Rightarrow> float64 \<Rightarrow> float64) \<Rightarrow> elem \<Rightarrow> elem \<Rightarrow> elem" where
  "ma_binary f a b =
     (let m = (mask a \<or> mask b)
      in \<lparr>data = (if m then data a else f (data a) (data b)), mask = m\<rparr>)"

definition ma_power2 :: "(real \<Rightarrow> real) \<Rightarrow> real \<Rightarrow> elem \<Rightarrow> elem" where
  "ma_power2 rnd fill e =
     (if mask e then e
      else let r = fmul rnd (data e) (data e)
           in if isfinite r then \<lparr>data = r, mask = False\<rparr>
              else \<lparr>data = F fill, mask = True\<rparr>)"

definition ma_sqrt :: "(real \<Rightarrow> real) \<Rightarrow> elem \<Rightarrow> elem" where
  "ma_sqrt rnd e =
     (let m = (mask e \<or> val (data e) < 0 \<or> \<not> isfinite (data e))
      in \<lparr>data = (if m then data e else fsqrt rnd (data e)), mask = m\<rparr>)"

text \<open>\<open>a[a == missing] = ma.masked\<close>: the mask bit is set where the number is the sentinel.\<close>

definition mask_missing :: "real \<Rightarrow> elem \<Rightarrow> elem" where
  "mask_missing missing e = e\<lparr>mask := (mask e \<or> val (data e) = missing)\<rparr>"

text \<open>\<open>a[b.mask] = ma.masked\<close>, at one position.\<close>

definition mask_where :: "elem \<Rightarrow> elem \<Rightarrow> elem" where
  "mask_where b a = a\<lparr>mask := (mask a \<or> mask b)\<rparr>"

text \<open>
  \<open>a[np.fabs(a) < TOL] = 0.\<close>. The index is itself a masked array and the value a plain
  number: the assignment goes by the stored booleans of the index, which are computed
  from the stored numbers of \<open>a\<close> at all positions, and it writes the stored number
  only; the mask bits stay as they are (numpy 1.22 and later).
\<close>

definition snap_elem :: "real \<Rightarrow> elem \<Rightarrow> elem" where
  "snap_elem TOL e =
     (if val (fabs (data e)) < TOL then e\<lparr>data := F 0\<rparr> else e)"


text \<open>
  \<open>a == missing\<close> on a 0-dimensional value, as the condition of an \<open>if\<close>: the comparison
  with \<open>ma.masked\<close> is \<open>ma.masked\<close>, whose truth value is false.
\<close>

definition is_missing :: "real \<Rightarrow> float64 option \<Rightarrow> bool" where
  "is_missing missing a = (case a of None \<Rightarrow> False | Some x \<Rightarrow> val x = missing)"

section \<open>Unit conversions\<close>










section \<open>Wind vectors\<close>

text \<open>
  A 0-dimensional value takes part in the array operations as one position; a masked
  result of a 0-dimensional operation is the constant \<open>ma.masked\<close>, whose stored
  number is \<open>0.\<close>.
\<close>

definition to_elem :: "float64 option \<Rightarrow> elem" where
  "to_elem a = (case a of None \<Rightarrow> \<lparr>data = F 0, mask = True\<rparr> | Some x \<Rightarrow> \<lparr>data = x, mask = False\<rparr>)"

definition of_elem :: "elem \<Rightarrow> float64 option" where
  "of_elem e = (if mask e then None else Some (data e))"

text \<open>
  \<open>_vec2comp\<close> (lines 147-168), at one position:
  \<^verbatim>\<open>u = wspd * ma.sin(np.radians(wdir % 360.)) * -1\<close>,
  \<^verbatim>\<open>v = wspd * ma.cos(np.radians(wdir % 360.)) * -1\<close>.
\<close>

definition vec2comp_inner :: "(real \<Rightarrow> real) \<Rightarrow> elem \<Rightarrow> elem \<Rightarrow> elem \<times> elem" where
  "vec2comp_inner rnd wdir wspd =
     (let ang = np_ufunc (fradians rnd) (np_ufunc (fmod360 rnd) wdir);
          u = ma_binary (fmul rnd) (ma_binary (fmul rnd) wspd (ma_unary (fsin rnd) ang)) (plain (- 1));
          v = ma_binary (fmul rnd) (ma_binary (fmul rnd) wspd (ma_unary (fcos rnd) ang)) (plain (- 1))
      in (u, v))"

text \<open>Lines 199-205 of \<open>vec2comp\<close>, at one position of two fields of the same shape.\<close>

definition vec2comp_pos :: "(real \<Rightarrow> real) \<Rightarrow> real \<Rightarrow> real \<Rightarrow> elem \<Rightarrow> elem \<Rightarrow> elem \<times> elem" where
  "vec2comp_pos rnd TOL missing wdir wspd =
     (let wdir1 = mask_missing missing wdir;
          wspd1 = mask_missing missing wspd;
          wdir2 = mask_where wspd1 wdir1;
          wspd2 = mask_where wdir2 wspd1;
          (u, v) = vec2comp_inner rnd wdir2 wspd2
      in (snap_elem TOL u, snap_elem TOL v))"

text \<open>
  \<^verbatim>\<open>if ma.fabs(u) < TOL: u = 0.\<close> on a 0-dimensional value: the comparison with
  \<open>ma.masked\<close> is \<open>ma.masked\<close>, which is false as a condition.
\<close>

definition snap0 :: "real \<Rightarrow> float64 option \<Rightarrow> float64 option" where
  "snap0 TOL u =
     (case u of None \<Rightarrow> None
      | Some x \<Rightarrow> if val (fabs x) < TOL then Some (F 0) else Some x)"

text \<open>
  \<open>vec2comp\<close> (lines 171-218). \<open>TOL\<close> comes from \<open>sharppy.sharptab.constants\<close>, which
  is not part of the sources at hand, and is a parameter here; \<open>missing\<close> is the
  function's own parameter. The assertion of line 197 compares the shapes.
\<close>

definition vec2comp :: "(real \<Rightarrow> real) \<Rightarrow> real \<Rightarrow> real \<Rightarrow> marray \<Rightarrow> marray \<Rightarrow> error + (marray \<times> marray)" where
  "vec2comp rnd TOL missing wdir wspd =
     (case (wdir, wspd) of
        (Field ds, Field ss) \<Rightarrow>
          if length ds \<noteq> length ss then Inl AssertionError
          else let ps = map (\<lambda>(d, s). vec2comp_pos rnd TOL missing d s) (zip ds ss)
               in Inr (Field (map fst ps), Field (map snd ps))
      | (Scalar a, Scalar b) \<Rightarrow>
          let (a1, b1) = (if is_missing missing a then (None, None)
                          else if is_missing missing b then (None, None)
                          else (a, b));
              (u, v) = vec2comp_inner rnd (to_elem a1) (to_elem b1)
          in Inr (Scalar (snap0 TOL (of_elem u)), Scalar (snap0 TOL (of_elem v)))
      | _ \<Rightarrow> Inl AssertionError)"

text \<open>
  \<^verbatim>\<open>ma.sqrt(u**2 + v**2)\<close> (line 295), at one position. The fill value of \<open>u\<close>
  and \<open>v\<close> is the \<open>missing\<close> of \<open>mag\<close> (lines 287-288).
\<close>

definition mag_pos :: "(real \<Rightarrow> real) \<Rightarrow> real \<Rightarrow> elem \<Rightarrow> elem \<Rightarrow> elem" where
  "mag_pos rnd missing u v =
     ma_sqrt rnd (ma_binary (fadd rnd) (ma_power2 rnd missing u) (ma_power2 rnd missing v))"

text \<open>
  numpy broadcasting of two 1-dimensional arrays: equal lengths, or one of them of
  length 1, which is repeated; anything else raises \<open>ValueError\<close>.
\<close>

definition bcast :: "elem list \<Rightarrow> elem list \<Rightarrow> error + (elem \<times> elem) list" where
  "bcast xs ys =
     (if length xs = length ys then Inr (zip xs ys)
      else if length xs = 1 then Inr (zip (replicate (length ys) (hd xs)) ys)
      else if length ys = 1 then Inr (zip xs (replicate (length xs) (hd ys)))
      else Inl ValueError)"

text \<open>
  \<open>mag\<close> (lines 265-295). There is no shape check. With a field \<open>u\<close> the branch of
  lines 290-291 runs: it indexes \<open>v\<close> by \<open>v == missing\<close>, which for a masked
  0-dimensional \<open>v\<close> is the constant \<open>ma.masked\<close>, not a valid index
  (\<open>IndexError\<close>). With a 0-dimensional \<open>u\<close> the test of line 293 runs: for a field
  \<open>v\<close> the truth value of \<open>v == missing\<close> exists only for a single element
  (\<open>ValueError\<close> otherwise), and it is the stored boolean, false where \<open>v\<close> is masked.
\<close>

definition mag :: "(real \<Rightarrow> real) \<Rightarrow> real \<Rightarrow> marray \<Rightarrow> marray \<Rightarrow> error + marray" where
  "mag rnd missing u v =
     (case u of
        Field us \<Rightarrow>
          (let us1 = map (mask_missing missing) us
           in case v of
                Field vs \<Rightarrow>
                  (case bcast us1 (map (mask_missing missing) vs) of
                     Inl e \<Rightarrow> Inl e
                   | Inr ps \<Rightarrow> Inr (Field (map (\<lambda>(a, b). mag_pos rnd missing a b) ps)))
              | Scalar None \<Rightarrow> Inl IndexError
              | Scalar (Some y) \<Rightarrow>
                  Inr (Field (map (\<lambda>a. mag_pos rnd missing a (mask_missing missing (to_elem (Some y)))) us1)))
      | Scalar a \<Rightarrow>
          (case v of
             Scalar b \<Rightarrow>
               if is_missing missing a \<or> is_missing missing b then Inr (Scalar None)
               else Inr (Scalar (of_elem (mag_pos rnd missing (to_elem a) (to_elem b))))
           | Field vs \<Rightarrow>
               if is_missing missing a then Inr (Scalar None)
               else if length vs \<noteq> 1 then Inl ValueError
               else if \<not> mask (hd vs) \<and> val (data (hd vs)) = missing then Inr (Scalar None)
               else Inr (Field [mag_pos rnd missing (to_elem a) (hd vs)])))"

text \<open>
  Lines 247-254 of \<open>comp2vec\<close>, at one position: the direction is computed from the
  stored numbers before anything is masked; \<^verbatim>\<open>wdir[wdir < 0] += 360\<close> selects
  by the stored numbers and adds nothing at a masked position.
\<close>

definition wdir0 :: "(real \<Rightarrow> real) \<Rightarrow> elem \<Rightarrow> elem \<Rightarrow> elem" where
  "wdir0 rnd u v =
     np_ufunc (fdegrees rnd) (np_ufunc2 (farctan2 rnd) (np_ufunc fneg u) (np_ufunc fneg v))"

definition add360 :: "(real \<Rightarrow> real) \<Rightarrow> elem \<Rightarrow> elem" where
  "add360 rnd w =
     (if val (data w) < 0 \<and> \<not> mask w then w\<lparr>data := fadd rnd (data w) (F 360)\<rparr> else w)"

definition comp2vec_pos :: "(real \<Rightarrow> real) \<Rightarrow> real \<Rightarrow> real \<Rightarrow> elem \<Rightarrow> elem \<Rightarrow> elem" where
  "comp2vec_pos rnd TOL missing u v =
     (let w = wdir0 rnd u v;
          u1 = mask_missing missing u;
          v1 = mask_missing missing v;
          w1 = mask_where v1 (mask_where u1 w)
      in snap_elem TOL (add360 rnd w1))"

text \<open>
  \<open>comp2vec\<close> (lines 221-262). There is no shape check: \<open>np.arctan2\<close> broadcasts its
  arguments (\<open>ValueError\<close> where it cannot), lines 251-252 index \<open>wdir\<close> by the masks of
  \<open>u\<close> and \<open>v\<close> (\<open>IndexError\<close> where a mask of length 1 meets a longer or empty
  \<open>wdir\<close>), lines 249-250 index a masked 0-dimensional argument by \<open>ma.masked\<close>
  (\<open>IndexError\<close>), and \<open>mag\<close> receives \<open>u\<close> and \<open>v\<close> as lines 249-250 left them.
  Line 262 calls \<open>mag(u, v)\<close> without a sentinel, so \<open>mag\<close> tests against its default,
  the constant \<open>MISSING\<close> of \<open>sharppy.sharptab.constants\<close>, a parameter here like \<open>TOL\<close>;
  \<open>missing\<close> is the sentinel given to \<open>comp2vec\<close> itself.
\<close>

definition comp2vec :: "(real \<Rightarrow> real) \<Rightarrow> real \<Rightarrow> real \<Rightarrow> real \<Rightarrow> marray \<Rightarrow> marray \<Rightarrow> error + (marray \<times> marray)" where
  "comp2vec rnd TOL MISSING missing u v =
     (case (u, v) of
        (Scalar a, Scalar b) \<Rightarrow>
          (let w = of_elem (wdir0 rnd (to_elem a) (to_elem b))
           in if is_missing missing a \<or> is_missing missing b then Inr (Scalar None, Scalar None)
              else let w1 = of_elem (add360 rnd (to_elem w));
                       w2 = snap0 TOL w1
                   in case mag rnd MISSING (Scalar a) (Scalar b) of
                        Inl e \<Rightarrow> Inl e
                      | Inr s \<Rightarrow> Inr (Scalar w2, s))
      | (Field us, Field vs) \<Rightarrow>
          if length us \<noteq> length vs then
            (if length us \<noteq> 1 \<and> length vs \<noteq> 1 then Inl ValueError else Inl IndexError)
          else
            (let ws = map (\<lambda>(a, b). comp2vec_pos rnd TOL missing a b) (zip us vs)
             in case mag rnd MISSING (Field (map (mask_missing missing) us))
                                     (Field (map (mask_missing missing) vs)) of
                  Inl e \<Rightarrow> Inl e
                | Inr s \<Rightarrow> Inr (Field ws, s))
      | (Field us, Scalar None) \<Rightarrow> Inl IndexError
      | (Field us, Scalar (Some y)) \<Rightarrow>
          (let ws = map (\<lambda>a. comp2vec_pos rnd TOL missing a (to_elem (Some y))) us
           in case mag rnd MISSING (Field (map (mask_missing missing) us))
                                   (Scalar (of_elem (mask_missing missing (to_elem (Some y))))) of
                Inl e \<Rightarrow> Inl e
              | Inr s \<Rightarrow> Inr (Field ws, s))
      | (Scalar None, Field vs) \<Rightarrow> Inl IndexError
      | (Scalar (Some x), Field vs) \<Rightarrow>
          (let ws = map (\<lambda>b. comp2vec_pos rnd TOL missing (to_elem (Some x)) b) vs
           in case mag rnd MISSING (Scalar (of_elem (mask_missing missing (to_elem (Some x)))))
                                   (Field (map (mask_missing missing) vs)) of
                Inl e \<Rightarrow> Inl e
              | Inr s \<Rightarrow> Inr (Field ws, s)))"

text \<open>
  The 0-dimensional path of \<open>comp2vec\<close> once more, with the calls of numeric functions
  (\<open>np.arctan2\<close> and \<open>np.degrees\<close> on line 247, \<open>np.fabs\<close> on line 260, \<open>mag\<close> on line
  262) recorded in the order in which the interpreter makes them.
\<close>

datatype call = Call_arctan2 | Call_degrees | Call_fabs | Call_mag

definition comp2vec_logged ::
  "(real \<Rightarrow> real) \<Rightarrow> real \<Rightarrow> real \<Rightarrow> real \<Rightarrow> float64 option \<Rightarrow> float64 option
     \<Rightarrow> call list \<times> (error + (marray \<times> marray))" where
  "comp2vec_logged rnd TOL MISSING missing a b =
     (let w = of_elem (wdir0 rnd (to_elem a) (to_elem b));
          log1 = [Call_arctan2, Call_degrees]
      in if is_missing missing a \<or> is_missing missing b
         then (log1, Inr (Scalar None, Scalar None))
         else let w1 = of_elem (add360 rnd (to_elem w));
                  w2 = snap0 TOL w1;
                  log2 = log1 @ [Call_fabs]
              in (log2 @ [Call_mag],
                  case mag rnd MISSING (Scalar a) (Scalar b) of
                    Inl e \<Rightarrow> Inl e
                  | Inr s \<Rightarrow> Inr (Scalar w2, s)))"

section \<open>What the documentation states\<close>


definition times :: "real \<Rightarrow> real option + real option list \<Rightarrow> real option + real option list" where
  "times k s = map_sum (map_option (\<lambda>r. r * k)) (map (map_option (\<lambda>r. r * k))) s"

text \<open>
  The formulas of the documentation, in the real numbers:
  \<open>direction mod 360\<close>, \<open>u = -speed * sin(radians(direction mod 360))\<close>,
  \<open>v = -speed * cos(radians(direction mod 360))\<close>, and the replacement of a number
  below the tolerance by \<open>0\<close>.
\<close>

definition dir_mod360 :: "real \<Rightarrow> real" where
  "dir_mod360 d = d - 360 * of_int \<lfloor>d / 360\<rfloor>"

definition spec_u :: "real \<Rightarrow> real \<Rightarrow> real" where
  "spec_u d s = - s * sin (dir_mod360 d * (pi / 180))"

definition spec_v :: "real \<Rightarrow> real \<Rightarrow> real" where
  "spec_v d s = - s * cos (dir_mod360 d * (pi / 180))"

definition snap :: "real \<Rightarrow> real \<Rightarrow> real" where
  "snap TOL x = (if \<bar>x\<bar> < TOL then 0 else x)"

text \<open>
  A position of the arguments of \<open>vec2comp\<close> carries no wind: the direction or the
  speed is masked or equal to the sentinel.
\<close>

definition absent :: "real \<Rightarrow> elem \<Rightarrow> elem \<Rightarrow> bool" where
  "absent missing d s =
     (mask d \<or> mask s \<or> val (data d) = missing \<or> val (data s) = missing)"


text \<open>
  \<^verbatim>\<open>if direction < 0: direction += 360\<close>, in the real numbers.
\<close>

definition norm360 :: "real \<Rightarrow> real" where
  "norm360 w = (if w < 0 then w + 360 else w)"

text \<open>\<open>componentsToVector(*vectorToComponents(d, s))\<close>.\<close>

definition roundtrip :: "(real \<Rightarrow> real) \<Rightarrow> real \<Rightarrow> real \<Rightarrow> real \<Rightarrow> marray \<Rightarrow> marray \<Rightarrow> error + (marray \<times> marray)" where
  "roundtrip rnd TOL MISSING missing wdir wspd =
     (case vec2comp rnd TOL missing wdir wspd of
        Inl e \<Rightarrow> Inl e
      | Inr (u, v) \<Rightarrow> comp2vec rnd TOL MISSING missing u v)"


section \<open>Basic facts\<close>

lemma val_fmul: "val (fmul rnd x y) = rnd (val x * val y)"
  by (simp add: fmul_def Let_def)



section \<open>Binary64 arithmetic: rounding to nearest\<close>

text \<open>
  Few facts about the rounding are used below: a rounded negative number is negative and
  at most twice as large in absolute value, a rounded positive number is positive and
  between half and twice the number, and every number in \<open>(360 - 2^-46, 360]\<close> rounds to
  \<open>360\<close>, the doubles next to \<open>360\<close> being \<open>2^-44\<close> apart. So the results in this
  arithmetic do not depend on how exactly the library rounds a function.
\<close>

lemma round_half_even_bounds:
  "y - 1 / 2 \<le> of_int (round_half_even y)" "of_int (round_half_even y) \<le> y + 1 / 2"
proof -
  define n where "n = \<lfloor>y\<rfloor>"
  have f: "of_int n \<le> y" "y < of_int n + 1" unfolding n_def by linarith+
  have r: "round_half_even y =
     (if y - of_int n < 1 / 2 then n else if 1 / 2 < y - of_int n then n + 1
      else if even n then n else n + 1)"
    by (simp add: round_half_even_def Let_def n_def)
  show "y - 1 / 2 \<le> of_int (round_half_even y)"
    unfolding r using f by auto
  show "of_int (round_half_even y) \<le> y + 1 / 2"
    unfolding r using f by auto
qed

lemma round_half_even_eq:
  assumes "\<bar>y - of_int n\<bar> < 1 / 2"
  shows "round_half_even y = n"
proof -
  have "\<bar>of_int (round_half_even y) - (of_int n :: real)\<bar> < 1"
    using round_half_even_bounds [of y] assms by linarith
  then have "\<bar>round_half_even y - n\<bar> < 1"
    by (metis of_int_diff of_int_abs of_int_less_1_iff)
  then show ?thesis by linarith
qed

lemma binary64_scaled:
  assumes "x \<noteq> 0"
  defines "ulp \<equiv> 2 powr (of_int \<lfloor>log 2 \<bar>x\<bar>\<rfloor> - 52)"
  shows "0 < ulp" "1 \<le> \<bar>x / ulp\<bar>" "binary64 x = ulp * of_int (round_half_even (x / ulp))"
proof -
  show u: "0 < ulp" by (simp add: ulp_def)
  have "of_int \<lfloor>log 2 \<bar>x\<bar>\<rfloor> \<le> log 2 \<bar>x\<bar>" by simp
  then have "2 powr (of_int \<lfloor>log 2 \<bar>x\<bar>\<rfloor>) \<le> \<bar>x\<bar>"
    using assms(1) by (subst (asm) le_log_iff) simp_all
  moreover have "ulp \<le> 2 powr (of_int \<lfloor>log 2 \<bar>x\<bar>\<rfloor>)"
    unfolding ulp_def by (rule powr_mono) simp_all
  ultimately have "ulp \<le> \<bar>x\<bar>" by linarith
  then show "1 \<le> \<bar>x / ulp\<bar>" using u by (simp add: abs_divide le_divide_eq)
  show "binary64 x = ulp * of_int (round_half_even (x / ulp))"
    using assms(1) by (simp add: binary64_def Let_def ulp_def)
qed

lemma binary64_neg:
  assumes "x < 0"
  shows "binary64 x < 0" "2 * x \<le> binary64 x"
proof -
  define ulp :: real where "ulp = 2 powr (of_int \<lfloor>log 2 \<bar>x\<bar>\<rfloor> - 52)"
  define y where "y = x / ulp"
  from assms have nz: "x \<noteq> 0" by simp
  note b = binary64_scaled [OF nz, folded ulp_def, folded y_def]
  have x: "x = ulp * y" using b(1) by (simp add: y_def)
  have "y < 0" using assms b(1) by (simp add: y_def divide_neg_pos)
  with b(2) have y: "y \<le> - 1" by simp
  have n1: "of_int (round_half_even y) \<le> y + 1 / 2" and n2: "y - 1 / 2 \<le> of_int (round_half_even y)"
    using round_half_even_bounds [of y] by simp_all
  have "(of_int (round_half_even y) :: real) < 0" using n1 y by linarith
  then show "binary64 x < 0" using b(1,3) by (simp add: mult_pos_neg)
  have "2 * y \<le> of_int (round_half_even y)" using n2 y by linarith
  then have "ulp * (2 * y) \<le> ulp * of_int (round_half_even y)"
    using b(1) by (simp only: mult_le_cancel_left_pos)
  then show "2 * x \<le> binary64 x" using b(3) by (simp add: x)
qed

lemma binary64_pos:
  assumes "0 < x"
  shows "0 < binary64 x" "binary64 x \<le> 2 * x"
proof -
  define ulp :: real where "ulp = 2 powr (of_int \<lfloor>log 2 \<bar>x\<bar>\<rfloor> - 52)"
  define y where "y = x / ulp"
  from assms have nz: "x \<noteq> 0" by simp
  note b = binary64_scaled [OF nz, folded ulp_def, folded y_def]
  have x: "x = ulp * y" using b(1) by (simp add: y_def)
  have "0 < y" using assms b(1) by (simp add: y_def)
  with b(2) have y: "1 \<le> y" by simp
  have n1: "of_int (round_half_even y) \<le> y + 1 / 2" and n2: "y - 1 / 2 \<le> of_int (round_half_even y)"
    using round_half_even_bounds [of y] by simp_all
  have "(0::real) < of_int (round_half_even y)" using n2 y by linarith
  then show "0 < binary64 x" using b(1,3) by simp
  have "of_int (round_half_even y) \<le> 2 * y" using n1 y by linarith
  then have "ulp * of_int (round_half_even y) \<le> ulp * (2 * y)"
    using b(1) by (simp only: mult_le_cancel_left_pos)
  then show "binary64 x \<le> 2 * x" using b(3) by (simp add: x)
qed

lemma binary64_360:
  assumes "360 - 1 / 2 ^ 46 < x" "x \<le> 360"
  shows "binary64 x = 360"
proof -
  have p: "1 / 2 ^ 46 \<le> (1::real)" by simp
  have x: "256 \<le> x" "x < 512" using assms p by linarith+
  then have ax: "\<bar>x\<bar> = x" "0 < x" "x \<noteq> 0" by simp_all
  have "\<lfloor>log 2 x\<rfloor> = 8"
  proof (rule floor_unique)
    have "2 powr 8 \<le> x" using x(1) by simp
    then show "of_int 8 \<le> log 2 x" using ax(2) by (subst le_log_iff) simp_all
    have "x < 2 powr 9" using x(2) by simp
    then have "log 2 x < 9" using ax(2) by (subst log_less_iff) simp_all
    then show "log 2 x < of_int 8 + 1" by simp
  qed
  then have e: "\<lfloor>log 2 \<bar>x\<bar>\<rfloor> = 8" by (simp add: ax)
  have u: "(2::real) powr (of_int 8 - 52) = 1 / 2 ^ 44"
  proof -
    have "(2::real) powr (of_int 8 - 52) = 2 powr (- 44)" by simp
    also have "\<dots> = 1 / 2 powr 44" by (simp add: powr_minus_divide)
    also have "\<dots> = 1 / 2 ^ 44" by simp
    finally show ?thesis .
  qed
  have b: "binary64 x = (1 / 2 ^ 44) * of_int (round_half_even (x / (1 / 2 ^ 44)))"
    using ax(3) unfolding binary64_def Let_def e u by simp
  have "\<bar>x / (1 / 2 ^ 44) - of_int (360 * 2 ^ 44)\<bar> = (360 - x) * 2 ^ 44"
    using assms(2) by (simp add: algebra_simps)
  also have "\<dots> < (1 / 2 ^ 46) * 2 ^ 44"
    using assms(1) by (intro mult_strict_right_mono) simp_all
  also have "\<dots> < 1 / 2" by simp
  finally have "round_half_even (x / (1 / 2 ^ 44)) = 360 * 2 ^ 44"
    by (rule round_half_even_eq)
  with b show ?thesis by simp
qed


section \<open>vec2comp\<close>

lemma val_fsin: "val (fsin exact x) = sin (val x)"
  by (cases x) (simp_all add: exact_def)

lemma F_val: "val x \<noteq> 0 \<Longrightarrow> F (val x) = x"
  by (cases x) simp_all

lemma val_fmod360: "val (fmod360 exact x) = dir_mod360 (val x)"
proof -
  define q where "q = val x / 360"
  have a: "val x = 360 * q" by (simp add: q_def)
  have d: "dir_mod360 (val x) = 360 * q - 360 * of_int \<lfloor>q\<rfloor>"
    by (simp add: dir_mod360_def q_def)
  show ?thesis
  proof (cases "0 \<le> q")
    case True
    then have m: "cfmod (val x) 360 = 360 * q - 360 * of_int \<lfloor>q\<rfloor>"
      by (simp add: cfmod_def q_def)
    have "0 \<le> 360 * q - 360 * of_int \<lfloor>q\<rfloor>"
      using of_int_floor_le [of q] by simp
    moreover have "\<not> q < of_int \<lfloor>q\<rfloor>"
      by (simp add: not_less)
    ultimately show ?thesis
      unfolding fmod360_def Let_def m d exact_def by auto
  next
    case False
    then have m: "cfmod (val x) 360 = 360 * q - 360 * of_int \<lceil>q\<rceil>"
      by (simp add: cfmod_def q_def)
    show ?thesis
    proof (cases "of_int \<lfloor>q\<rfloor> = q")
      case True
      then obtain n :: int where n: "q = of_int n" by metis
      show ?thesis
        unfolding fmod360_def Let_def m d exact_def by (simp add: n)
    next
      case F2: False
      then have c: "\<lceil>q\<rceil> = \<lfloor>q\<rfloor> + 1"
        by (metis ceiling_altdef)
      have "q < of_int \<lceil>q\<rceil>" using F2 c
        by (metis le_of_int_ceiling less_eq_real_def of_int_floor_le floor_of_int ceiling_of_int)
      then have "360 * q - 360 * of_int \<lceil>q\<rceil> < 0" by simp
      then show ?thesis
        unfolding fmod360_def Let_def m d exact_def by (simp add: c algebra_simps)
    qed
  qed
qed

lemma vec2comp_inner_exact:
  assumes "\<not> mask wd" "\<not> mask ws"
  shows "mask (fst (vec2comp_inner exact wd ws)) = False"
    and "mask (snd (vec2comp_inner exact wd ws)) = False"
    and "val (data (fst (vec2comp_inner exact wd ws))) = spec_u (val (data wd)) (val (data ws))"
    and "val (data (snd (vec2comp_inner exact wd ws))) = spec_v (val (data wd)) (val (data ws))"
  using assms
  by (simp_all add: vec2comp_inner_def Let_def ma_binary_def ma_unary_def np_ufunc_def plain_def
      val_fmul val_fsin val_fmod360 fradians_def fcos_def spec_u_def spec_v_def)
    (simp_all add: exact_def)


lemma snap0_exact:
  assumes "0 < TOL"
  shows "snap0 TOL (Some x) = Some (F (snap TOL (val x)))"
proof (cases "\<bar>val x\<bar> < TOL")
  case True
  then show ?thesis by (simp add: snap0_def snap_def fabs_def)
next
  case False
  with assms have "val x \<noteq> 0" by auto
  then have "F (val x) = x" by (rule F_val)
  with False show ?thesis by (simp add: snap0_def snap_def fabs_def)
qed

lemma snap_elem_exact:
  assumes "0 < TOL" "\<not> mask e"
  shows "snap_elem TOL e = plain (snap TOL (val (data e)))"
proof (cases "\<bar>val (data e)\<bar> < TOL")
  case True
  with assms(2) show ?thesis by (simp add: snap_elem_def snap_def fabs_def plain_def)
next
  case False
  with assms have "val (data e) \<noteq> 0" by auto
  then have "F (val (data e)) = data e" by (rule F_val)
  with False assms show ?thesis by (simp add: snap_elem_def snap_def fabs_def plain_def)
qed

lemma vec2comp_scalar_exact:
  assumes "0 < TOL" "val x \<noteq> missing" "val y \<noteq> missing"
  shows "vec2comp exact TOL missing (Scalar (Some x)) (Scalar (Some y))
         = Inr (Scalar (Some (F (snap TOL (spec_u (val x) (val y))))),
                Scalar (Some (F (snap TOL (spec_v (val x) (val y))))))"
proof -
  let ?wd = "to_elem (Some x)" and ?ws = "to_elem (Some y)"
  have m: "\<not> mask ?wd" "\<not> mask ?ws" by (simp_all add: to_elem_def)
  have d: "data ?wd = x" "data ?ws = y" by (simp_all add: to_elem_def)
  obtain u v where uv: "vec2comp_inner exact ?wd ?ws = (u, v)" by (cases "vec2comp_inner exact ?wd ?ws")
  from vec2comp_inner_exact [OF m] uv d
  have u: "\<not> mask u" "val (data u) = spec_u (val x) (val y)"
    and v: "\<not> mask v" "val (data v) = spec_v (val x) (val y)" by simp_all
  from u v have "snap0 TOL (of_elem u) = Some (F (snap TOL (spec_u (val x) (val y))))"
    and "snap0 TOL (of_elem v) = Some (F (snap TOL (spec_v (val x) (val y))))"
    using snap0_exact [OF assms(1)] by (simp_all add: of_elem_def)
  with assms(2,3) uv show ?thesis
    by (simp add: vec2comp_def is_missing_def)
qed

lemma vec2comp_pos_exact:
  assumes "0 < TOL" "\<not> mask d" "\<not> mask s" "val (data d) \<noteq> missing" "val (data s) \<noteq> missing"
  shows "vec2comp_pos exact TOL missing d s
         = (plain (snap TOL (spec_u (val (data d)) (val (data s)))),
            plain (snap TOL (spec_v (val (data d)) (val (data s)))))"
proof -
  have d2: "mask_where (mask_missing missing s) (mask_missing missing d) = d"
    using assms by (simp add: mask_where_def mask_missing_def)
  have s2: "mask_where d (mask_missing missing s) = s"
    using assms by (simp add: mask_where_def mask_missing_def)
  obtain u v where uv: "vec2comp_inner exact d s = (u, v)" by (cases "vec2comp_inner exact d s")
  from vec2comp_inner_exact [OF assms(2,3)] uv
  have u: "\<not> mask u" "val (data u) = spec_u (val (data d)) (val (data s))"
    and v: "\<not> mask v" "val (data v) = spec_v (val (data d)) (val (data s))" by simp_all
  show ?thesis
    using snap_elem_exact [OF assms(1) u(1)] snap_elem_exact [OF assms(1) v(1)] u(2) v(2) uv
    by (simp add: vec2comp_pos_def Let_def d2 s2)
qed

text \<open>
  Claim C2, as amended. With a positive tolerance and exact arithmetic, at every position
  where direction and speed are present and differ from the sentinel, \<open>vec2comp\<close>
  returns \<open>-speed * sin(radians(direction mod 360))\<close> and
  \<open>-speed * cos(radians(direction mod 360))\<close>, each replaced by \<open>0\<close> where its absolute
  value is below the tolerance (lines 204-205 and 214-217); for two numbers and,
  position by position, for two fields of the same length.
\<close>

theorem vec2comp_formula_snapped:
  assumes "0 < TOL"
  shows "(val x \<noteq> missing \<and> val y \<noteq> missing \<longrightarrow>
            vec2comp exact TOL missing (Scalar (Some x)) (Scalar (Some y))
            = Inr (Scalar (Some (F (snap TOL (spec_u (val x) (val y))))),
                   Scalar (Some (F (snap TOL (spec_v (val x) (val y)))))))
       \<and> (length ds = length ss \<and> i < length ds
            \<and> \<not> mask (ds ! i) \<and> \<not> mask (ss ! i)
            \<and> val (data (ds ! i)) \<noteq> missing \<and> val (data (ss ! i)) \<noteq> missing \<longrightarrow>
            (\<exists>us vs. vec2comp exact TOL missing (Field ds) (Field ss) = Inr (Field us, Field vs)
               \<and> length us = length ds \<and> length vs = length ds
               \<and> us ! i = plain (snap TOL (spec_u (val (data (ds ! i))) (val (data (ss ! i)))))
               \<and> vs ! i = plain (snap TOL (spec_v (val (data (ds ! i))) (val (data (ss ! i)))))))"
proof (intro conjI impI)
  assume "val x \<noteq> missing \<and> val y \<noteq> missing"
  then show "vec2comp exact TOL missing (Scalar (Some x)) (Scalar (Some y))
            = Inr (Scalar (Some (F (snap TOL (spec_u (val x) (val y))))),
                   Scalar (Some (F (snap TOL (spec_v (val x) (val y))))))"
    using vec2comp_scalar_exact [OF assms] by simp
next
  assume h: "length ds = length ss \<and> i < length ds
            \<and> \<not> mask (ds ! i) \<and> \<not> mask (ss ! i)
            \<and> val (data (ds ! i)) \<noteq> missing \<and> val (data (ss ! i)) \<noteq> missing"
  let ?ps = "map (\<lambda>(d, s). vec2comp_pos exact TOL missing d s) (zip ds ss)"
  have r: "vec2comp exact TOL missing (Field ds) (Field ss) = Inr (Field (map fst ?ps), Field (map snd ?ps))"
    using h by (simp add: vec2comp_def Let_def)
  have p: "?ps ! i = vec2comp_pos exact TOL missing (ds ! i) (ss ! i)"
    using h by simp
  have "vec2comp_pos exact TOL missing (ds ! i) (ss ! i)
         = (plain (snap TOL (spec_u (val (data (ds ! i))) (val (data (ss ! i))))),
            plain (snap TOL (spec_v (val (data (ds ! i))) (val (data (ss ! i))))))"
    using h vec2comp_pos_exact [OF assms] by simp
  with p have "map fst ?ps ! i = plain (snap TOL (spec_u (val (data (ds ! i))) (val (data (ss ! i)))))"
    and "map snd ?ps ! i = plain (snap TOL (spec_v (val (data (ds ! i))) (val (data (ss ! i)))))"
    using h by simp_all
  with r h show "\<exists>us vs. vec2comp exact TOL missing (Field ds) (Field ss) = Inr (Field us, Field vs)
               \<and> length us = length ds \<and> length vs = length ds
               \<and> us ! i = plain (snap TOL (spec_u (val (data (ds ! i))) (val (data (ss ! i)))))
               \<and> vs ! i = plain (snap TOL (spec_v (val (data (ds ! i))) (val (data (ss ! i)))))"
    by simp
qed

lemma dir_mod360_90: "dir_mod360 90 = 90"
  by (simp add: dir_mod360_def)

lemma dir_mod360_m270: "dir_mod360 (- 270) = 90"
proof -
  have "\<lfloor>- 270 / (360::real)\<rfloor> = - 1" by (rule floor_unique) simp_all
  then show ?thesis by (simp add: dir_mod360_def)
qed

lemma spec_u_90: "spec_u 90 s = - s"
  by (simp add: spec_u_def dir_mod360_90)

lemma spec_v_90: "spec_v 90 s = 0"
  by (simp add: spec_v_def dir_mod360_90)

text \<open>
  Claim C2 as stated has no snapping: at direction \<open>90\<close> and speed \<open>5e-11\<close>, with the
  tolerance \<open>1e-10\<close>, the formula gives \<open>u = -5e-11\<close> and the function returns \<open>0\<close>.
\<close>

theorem vec2comp_formula_counterexample:
  "vec2comp exact (1 / 10 ^ 10) (- 9999) (Scalar (Some (F 90))) (Scalar (Some (F (1 / (2 * 10 ^ 10)))))
     = Inr (Scalar (Some (F 0)), Scalar (Some (F 0)))
   \<and> spec_u 90 (1 / (2 * 10 ^ 10)) = - (1 / (2 * 10 ^ 10))"
proof -
  have "vec2comp exact (1 / 10 ^ 10) (- 9999) (Scalar (Some (F 90))) (Scalar (Some (F (1 / (2 * 10 ^ 10)))))
     = Inr (Scalar (Some (F (snap (1 / 10 ^ 10) (spec_u 90 (1 / (2 * 10 ^ 10)))))),
            Scalar (Some (F (snap (1 / 10 ^ 10) (spec_v 90 (1 / (2 * 10 ^ 10)))))))"
    using vec2comp_scalar_exact [of "1 / 10 ^ 10" "F 90" "- 9999" "F (1 / (2 * 10 ^ 10))"] by simp
  then show ?thesis by (simp add: spec_u_90 spec_v_90 snap_def)
qed

theorem vec2comp_formula_snapped_witness:
  "vec2comp exact (1 / 10 ^ 10) (- 9999) (Scalar (Some (F (- 270)))) (Scalar (Some (F 5)))
     = Inr (Scalar (Some (F (- 5))), Scalar (Some (F 0)))
   \<and> (\<exists>us vs. vec2comp exact (1 / 10 ^ 10) (- 9999) (Field [plain 90, plain (- 9999)]) (Field [plain 5, plain 5])
               = Inr (Field us, Field vs) \<and> us ! 0 = plain (- 5) \<and> vs ! 0 = plain 0)"
  using vec2comp_formula_snapped [of "1 / 10 ^ 10" "F (- 270)" "- 9999" "F 5" "[plain 90, plain (- 9999)]" "[plain 5, plain 5]" 0]
  by (simp add: spec_u_def spec_v_def dir_mod360_90 dir_mod360_m270 snap_def plain_def) blast

subsection \<open>Missing and masked positions\<close>


lemma vec2comp_inner_masked:
  assumes "mask wd \<or> mask ws"
  shows "vec2comp_inner rnd wd ws = (\<lparr>data = data ws, mask = True\<rparr>, \<lparr>data = data ws, mask = True\<rparr>)"
  using assms
  by (auto simp add: vec2comp_inner_def Let_def ma_binary_def ma_unary_def np_ufunc_def plain_def)


lemma masked_before_transform:
  "mask (mask_where (mask_missing missing s) (mask_missing missing d)) = absent missing d s"
  "mask (mask_where (mask_where (mask_missing missing s) (mask_missing missing d))
           (mask_missing missing s)) = absent missing d s"
  by (auto simp add: mask_where_def mask_missing_def absent_def)


text \<open>
  At a position that carries no wind, \<open>u\<close> and \<open>v\<close> come back masked over the stored
  speed; lines 204-205 overwrite that stored number by \<open>0.\<close> where it is below the
  tolerance, under the mask.
\<close>

lemma vec2comp_pos_masked:
  assumes "absent missing d s"
  shows "vec2comp_pos rnd TOL missing d s
         = (if \<bar>val (data s)\<bar> < TOL then (hidden 0, hidden 0)
            else (\<lparr>data = data s, mask = True\<rparr>, \<lparr>data = data s, mask = True\<rparr>))"
proof -
  let ?d2 = "mask_where (mask_missing missing s) (mask_missing missing d)"
  let ?s2 = "mask_where ?d2 (mask_missing missing s)"
  have "mask ?d2 \<or> mask ?s2" using assms masked_before_transform [of missing s d] by simp
  then have "vec2comp_inner rnd ?d2 ?s2 = (\<lparr>data = data ?s2, mask = True\<rparr>, \<lparr>data = data ?s2, mask = True\<rparr>)"
    by (rule vec2comp_inner_masked)
  moreover have "data ?s2 = data s" by (simp add: mask_where_def mask_missing_def)
  ultimately show ?thesis
    by (simp add: vec2comp_pos_def Let_def snap_elem_def fabs_def hidden_def)
qed

lemma vec2comp_Field_Field:
  "vec2comp rnd TOL missing (Field ds) (Field ss) =
     (if length ds \<noteq> length ss then Inl AssertionError
      else Inr (Field (map (\<lambda>(d, s). fst (vec2comp_pos rnd TOL missing d s)) (zip ds ss)),
                Field (map (\<lambda>(d, s). snd (vec2comp_pos rnd TOL missing d s)) (zip ds ss))))"
  by (simp add: vec2comp_def Let_def case_prod_unfold comp_def)







text \<open>
  What lines 204-205 do at such a position is to overwrite the stored speed \<open>0.\<close> under
  the mask: \<open>vec2comp([MISSING], [0.])\<close>, and a position that arrives masked.
\<close>

lemma vec2comp_calm_stays_masked:
  "vec2comp rnd (1 / 10 ^ 10) (- 9999) (Field [plain (- 9999)]) (Field [plain 0])
   = Inr (Field [hidden 0], Field [hidden 0])"
  "vec2comp rnd (1 / 10 ^ 10) (- 9999) (Field [hidden 270]) (Field [hidden 0])
   = Inr (Field [hidden 0], Field [hidden 0])"
  by (simp_all add: vec2comp_Field_Field vec2comp_pos_masked absent_def plain_def hidden_def)

lemma binary64_zero: "binary64 0 = 0"
  by (simp add: binary64_def)

lemma binary64_half:
  assumes "0 < x"
  shows "x / 2 \<le> binary64 x"
proof -
  define ulp :: real where "ulp = 2 powr (of_int \<lfloor>log 2 \<bar>x\<bar>\<rfloor> - 52)"
  define y where "y = x / ulp"
  from assms have nz: "x \<noteq> 0" by simp
  note b = binary64_scaled [OF nz, folded ulp_def, folded y_def]
  have x: "x = ulp * y" using b(1) by (simp add: y_def)
  have "0 < y" using assms b(1) by (simp add: y_def)
  with b(2) have y: "1 \<le> y" by simp
  have "y - 1 / 2 \<le> of_int (round_half_even y)"
    using round_half_even_bounds [of y] by simp
  then have "y / 2 \<le> of_int (round_half_even y)" using y by linarith
  then have "ulp * (y / 2) \<le> ulp * of_int (round_half_even y)"
    using b(1) by (simp only: mult_le_cancel_left_pos)
  then show ?thesis using b(3) by (simp add: x)
qed

lemma binary64_nonneg: "0 \<le> r \<Longrightarrow> 0 \<le> binary64 r"
  using binary64_pos(1) [of r] binary64_zero by (cases "r = 0") (simp_all add: less_le)

lemma max_float64_bounds: "1 \<le> max_float64" "max_float64 < 2 ^ 1024"
  by (simp_all add: max_float64_def)

section \<open>mag\<close>

lemma val_fsqrt: "val (fsqrt rnd x) = rnd (sqrt (val x)) \<or> (x = NegZero \<and> val (fsqrt rnd x) = 0)"
  by (cases x) simp_all

lemma val_fadd: "val (fadd rnd x y) = rnd (val x + val y) \<or> val (fadd rnd x y) = 0"
  by (simp add: fadd_def)

lemma mag_pos_masked:
  assumes "mask u \<or> mask v"
  shows "mask (mag_pos rnd fill u v)"
  using assms by (auto simp add: mag_pos_def ma_sqrt_def ma_binary_def ma_power2_def Let_def)

lemma mag_pos_overflow:
  assumes "\<not> isfinite (fmul rnd (data u) (data u)) \<or> \<not> isfinite (fmul rnd (data v) (data v))
           \<or> \<not> isfinite (fadd rnd (fmul rnd (data u) (data u)) (fmul rnd (data v) (data v)))"
  shows "mask (mag_pos rnd fill u v)"
  using assms by (auto simp add: mag_pos_def ma_sqrt_def ma_binary_def ma_power2_def Let_def)

lemma mag_pos_present:
  assumes "\<forall>r\<ge>0. 0 \<le> rnd r" "\<not> mask u" "\<not> mask v"
    "isfinite (fmul rnd (data u) (data u))" "isfinite (fmul rnd (data v) (data v))"
    "isfinite (fadd rnd (fmul rnd (data u) (data u)) (fmul rnd (data v) (data v)))"
  shows "mag_pos rnd fill u v
         = \<lparr>data = fsqrt rnd (fadd rnd (fmul rnd (data u) (data u)) (fmul rnd (data v) (data v))),
            mask = False\<rparr>"
proof -
  have "0 \<le> val (fmul rnd (data u) (data u))" "0 \<le> val (fmul rnd (data v) (data v))"
    using assms(1) by (simp_all add: val_fmul)
  then have "0 \<le> val (fadd rnd (fmul rnd (data u) (data u)) (fmul rnd (data v) (data v)))"
    using assms(1) by (simp add: fadd_def)
  then have "\<not> val (fadd rnd (fmul rnd (data u) (data u)) (fmul rnd (data v) (data v))) < 0"
    by (simp add: not_less)
  with assms(2-6) show ?thesis
    by (simp add: mag_pos_def ma_sqrt_def ma_binary_def ma_power2_def Let_def)
qed

lemma mag_pos_exact:
  assumes "\<not> mask u" "\<not> mask v" "(val (data u))\<^sup>2 + (val (data v))\<^sup>2 \<le> max_float64"
  shows "mag_pos exact fill u v = plain (sqrt ((val (data u))\<^sup>2 + (val (data v))\<^sup>2))"
proof -
  define a where "a = val (data u) * val (data u)"
  define b where "b = val (data v) * val (data v)"
  have s: "a + b \<le> max_float64" using assms(3) by (simp add: power2_eq_square a_def b_def)
  have n: "0 \<le> a" "0 \<le> b" by (simp_all add: a_def b_def)
  have fu: "fmul exact (data u) (data u) = F a" "fmul exact (data v) (data v) = F b"
    by (simp_all add: fmul_def exact_def a_def b_def)
  have fs: "fadd exact (F a) (F b) = F (a + b)" by (simp add: fadd_def exact_def)
  have "a \<le> max_float64" "b \<le> max_float64" using s n by linarith+
  then have i: "isfinite (F a)" "isfinite (F b)" "isfinite (F (a + b))"
    using s n by (simp_all add: isfinite_def)
  have "mag_pos exact fill u v
        = \<lparr>data = fsqrt exact (fadd exact (fmul exact (data u) (data u)) (fmul exact (data v) (data v))),
           mask = False\<rparr>"
    using assms(1,2) i by (intro mag_pos_present) (simp_all add: fu fs exact_def)
  then have "mag_pos exact fill u v = \<lparr>data = F (sqrt (a + b)), mask = False\<rparr>"
    by (simp add: fu fs) (simp add: exact_def)
  then show ?thesis by (simp add: plain_def power2_eq_square a_def b_def)
qed

lemma mag_pos_nonneg:
  assumes "\<forall>r\<ge>0. 0 \<le> rnd r" "\<not> mask (mag_pos rnd fill u v)"
  shows "0 \<le> val (data (mag_pos rnd fill u v))"
proof -
  define e where "e = ma_binary (fadd rnd) (ma_power2 rnd fill u) (ma_power2 rnd fill v)"
  have p: "mag_pos rnd fill u v = ma_sqrt rnd e" by (simp add: mag_pos_def e_def)
  have m: "\<not> (mask e \<or> val (data e) < 0 \<or> \<not> isfinite (data e))"
    using assms(2) unfolding p ma_sqrt_def Let_def by simp
  then have d: "data (ma_sqrt rnd e) = fsqrt rnd (data e)"
    unfolding ma_sqrt_def Let_def by simp
  from m have n: "0 \<le> val (data e)" by simp
  then have "0 \<le> sqrt (val (data e))" by simp
  with assms(1) have "0 \<le> rnd (sqrt (val (data e)))" by blast
  with val_fsqrt [of rnd "data e"] show ?thesis unfolding p d by auto
qed

lemma mag_Scalar_Scalar:
  "mag rnd missing (Scalar a) (Scalar b) =
     (if is_missing missing a \<or> is_missing missing b then Inr (Scalar None)
      else Inr (Scalar (of_elem (mag_pos rnd missing (to_elem a) (to_elem b)))))"
  by (simp add: mag_def)

lemma mag_Field_Field:
  "length us = length vs \<Longrightarrow>
   mag rnd missing (Field us) (Field vs) =
     Inr (Field (map (\<lambda>(a, b). mag_pos rnd missing (mask_missing missing a) (mask_missing missing b))
                   (zip us vs)))"
  by (simp add: mag_def bcast_def Let_def zip_map_map case_prod_unfold comp_def)

lemma mag_scalar_present:
  assumes "\<forall>r\<ge>0. 0 \<le> rnd r" "val x \<noteq> missing" "val y \<noteq> missing"
    "isfinite (fmul rnd x x)" "isfinite (fmul rnd y y)"
    "isfinite (fadd rnd (fmul rnd x x) (fmul rnd y y))"
  shows "mag rnd missing (Scalar (Some x)) (Scalar (Some y))
         = Inr (Scalar (Some (fsqrt rnd (fadd rnd (fmul rnd x x) (fmul rnd y y)))))"
proof -
  have "mag_pos rnd missing (to_elem (Some x)) (to_elem (Some y))
        = \<lparr>data = fsqrt rnd (fadd rnd (fmul rnd x x) (fmul rnd y y)), mask = False\<rparr>"
    using mag_pos_present [OF assms(1), of "to_elem (Some x)" "to_elem (Some y)" missing] assms(4-6)
    by (simp add: to_elem_def)
  with assms(2,3) show ?thesis
    by (simp add: mag_Scalar_Scalar is_missing_def of_elem_def)
qed

lemma mag_scalar_exact:
  assumes "val x \<noteq> missing" "val y \<noteq> missing" "(val x)\<^sup>2 + (val y)\<^sup>2 \<le> max_float64"
  shows "mag exact missing (Scalar (Some x)) (Scalar (Some y))
         = Inr (Scalar (Some (F (sqrt ((val x)\<^sup>2 + (val y)\<^sup>2)))))"
  using assms mag_pos_exact [of "to_elem (Some x)" "to_elem (Some y)" missing]
  by (simp add: mag_Scalar_Scalar is_missing_def to_elem_def of_elem_def plain_def)

lemma mag_scalar_missing:
  assumes "is_missing missing a \<or> is_missing missing b"
  shows "mag rnd missing (Scalar a) (Scalar b) = Inr (Scalar None)"
  using assms by (auto simp add: mag_Scalar_Scalar)

lemma mag_scalar_overflow:
  assumes "\<not> isfinite (fmul rnd x x) \<or> \<not> isfinite (fmul rnd y y)
           \<or> \<not> isfinite (fadd rnd (fmul rnd x x) (fmul rnd y y))"
  shows "mag rnd missing (Scalar (Some x)) (Scalar (Some y)) = Inr (Scalar None)"
proof -
  have "mask (mag_pos rnd missing (to_elem (Some x)) (to_elem (Some y)))"
    using assms by (intro mag_pos_overflow) (simp add: to_elem_def)
  then show ?thesis by (simp add: mag_Scalar_Scalar of_elem_def)
qed

lemma mag_field_exact:
  assumes "length us = length vs" "i < length us"
    "\<not> mask (us ! i)" "\<not> mask (vs ! i)"
    "val (data (us ! i)) \<noteq> missing" "val (data (vs ! i)) \<noteq> missing"
    "(val (data (us ! i)))\<^sup>2 + (val (data (vs ! i)))\<^sup>2 \<le> max_float64"
  shows "\<exists>rs. mag exact missing (Field us) (Field vs) = Inr (Field rs) \<and> length rs = length us
            \<and> rs ! i = plain (sqrt ((val (data (us ! i)))\<^sup>2 + (val (data (vs ! i)))\<^sup>2))"
proof -
  have u: "mask_missing missing (us ! i) = us ! i" and v: "mask_missing missing (vs ! i) = vs ! i"
    using assms by (simp_all add: mask_missing_def)
  show ?thesis
    using assms(1,2) mag_pos_exact [OF assms(3,4,7), of missing]
    by (simp add: mag_Field_Field u v)
qed

lemma mag_nonneg:
  assumes "\<forall>r\<ge>0. 0 \<le> rnd r"
  shows "(mag rnd missing u v = Inr (Scalar (Some r)) \<longrightarrow> 0 \<le> val r)
   \<and> (mag rnd missing u v = Inr (Field rs) \<longrightarrow> (\<forall>e\<in>set rs. \<not> mask e \<longrightarrow> 0 \<le> val (data e)))"
proof (intro conjI impI ballI)
  assume "mag rnd missing u v = Inr (Scalar (Some r))"
  then obtain a b where "of_elem (mag_pos rnd missing a b) = Some r"
    by (auto simp add: mag_def Let_def split: marray.splits option.splits sum.splits if_splits)
  then show "0 \<le> val r"
    using mag_pos_nonneg [OF assms, of missing a b] by (simp add: of_elem_def split: if_splits)
next
  fix e
  assume "mag rnd missing u v = Inr (Field rs)" "e \<in> set rs" "\<not> mask e"
  then obtain a b where "e = mag_pos rnd missing a b"
    by (auto simp add: mag_def Let_def split: marray.splits option.splits sum.splits if_splits)
  with \<open>\<not> mask e\<close> show "0 \<le> val (data e)"
    using mag_pos_nonneg [OF assms, of missing a b] by simp
qed


lemma isfinite_small: "\<bar>r\<bar> \<le> 2 ^ 1023 \<Longrightarrow> isfinite (F r)"
proof -
  have "(2::real) ^ 1023 \<le> max_float64" by (simp add: max_float64_def)
  then show "\<bar>r\<bar> \<le> 2 ^ 1023 \<Longrightarrow> isfinite (F r)" by (simp add: isfinite_def)
qed

lemma mag_zero:
  assumes "missing \<noteq> 0"
  shows "mag exact missing (Scalar (Some (F 0))) (Scalar (Some (F 0))) = Inr (Scalar (Some (F 0)))"
    and "mag binary64 missing (Scalar (Some (F 0))) (Scalar (Some (F 0))) = Inr (Scalar (Some (F 0)))"
proof -
  have m: "0 \<le> max_float64" using max_float64_bounds(1) by linarith
  show "mag exact missing (Scalar (Some (F 0))) (Scalar (Some (F 0))) = Inr (Scalar (Some (F 0)))"
    using assms m mag_scalar_exact [of "F 0" missing "F 0"] by simp
  have f: "fmul binary64 (F 0) (F 0) = F 0" "fadd binary64 (F 0) (F 0) = F 0"
    by (simp_all add: fmul_def fadd_def binary64_zero)
  have i: "isfinite (F 0)" using m by (simp add: isfinite_def)
  have "mag binary64 missing (Scalar (Some (F 0))) (Scalar (Some (F 0)))
        = Inr (Scalar (Some (fsqrt binary64 (fadd binary64 (fmul binary64 (F 0) (F 0)) (fmul binary64 (F 0) (F 0))))))"
    using assms i by (intro mag_scalar_present) (simp_all add: f binary64_nonneg)
  then show "mag binary64 missing (Scalar (Some (F 0))) (Scalar (Some (F 0))) = Inr (Scalar (Some (F 0)))"
    by (simp add: f binary64_zero)
qed

text \<open>
  Claim C4, as amended. For a rounding that keeps non-negative numbers non-negative
  (\<open>exact\<close> and \<open>binary64\<close> do), and two numbers that differ from the sentinel:
  where \<open>u**2\<close>, \<open>v**2\<close> and their sum are finite, \<open>mag\<close> returns
  \<open>sqrt(u**2 + v**2)\<close>, in exact arithmetic the real \<open>sqrt(u^2 + v^2)\<close>, also at every
  position of two fields of the same length where both are present; where one of the
  three is not finite, \<open>mag\<close> returns masked. Whatever the arguments, no number that
  \<open>mag\<close> returns is negative; there is no tolerance in \<open>mag\<close>, and the zero vector
  gives \<open>0\<close>; a number equal to the sentinel gives the masked constant.
\<close>

theorem mag_formula:
  assumes "\<forall>r\<ge>0. 0 \<le> rnd r"
  shows
  "(val x \<noteq> missing \<and> val y \<noteq> missing
      \<and> isfinite (fmul rnd x x) \<and> isfinite (fmul rnd y y)
      \<and> isfinite (fadd rnd (fmul rnd x x) (fmul rnd y y)) \<longrightarrow>
      mag rnd missing (Scalar (Some x)) (Scalar (Some y))
      = Inr (Scalar (Some (fsqrt rnd (fadd rnd (fmul rnd x x) (fmul rnd y y))))))
   \<and> (val x \<noteq> missing \<and> val y \<noteq> missing \<and> (val x)\<^sup>2 + (val y)\<^sup>2 \<le> max_float64 \<longrightarrow>
      mag exact missing (Scalar (Some x)) (Scalar (Some y))
      = Inr (Scalar (Some (F (sqrt ((val x)\<^sup>2 + (val y)\<^sup>2))))))
   \<and> (length us = length vs \<and> i < length us
        \<and> \<not> mask (us ! i) \<and> \<not> mask (vs ! i)
        \<and> val (data (us ! i)) \<noteq> missing \<and> val (data (vs ! i)) \<noteq> missing
        \<and> (val (data (us ! i)))\<^sup>2 + (val (data (vs ! i)))\<^sup>2 \<le> max_float64 \<longrightarrow>
        (\<exists>rs. mag exact missing (Field us) (Field vs) = Inr (Field rs) \<and> length rs = length us
            \<and> rs ! i = plain (sqrt ((val (data (us ! i)))\<^sup>2 + (val (data (vs ! i)))\<^sup>2))))
   \<and> (\<not> isfinite (fmul rnd x x) \<or> \<not> isfinite (fmul rnd y y)
        \<or> \<not> isfinite (fadd rnd (fmul rnd x x) (fmul rnd y y)) \<longrightarrow>
        mag rnd missing (Scalar (Some x)) (Scalar (Some y)) = Inr (Scalar None))
   \<and> (mag rnd missing u v = Inr (Scalar (Some r)) \<longrightarrow> 0 \<le> val r)
   \<and> (mag rnd missing u v = Inr (Field rs') \<longrightarrow> (\<forall>e\<in>set rs'. \<not> mask e \<longrightarrow> 0 \<le> val (data e)))
   \<and> (missing \<noteq> 0 \<longrightarrow>
        mag exact missing (Scalar (Some (F 0))) (Scalar (Some (F 0))) = Inr (Scalar (Some (F 0)))
        \<and> mag binary64 missing (Scalar (Some (F 0))) (Scalar (Some (F 0))) = Inr (Scalar (Some (F 0))))
   \<and> (val x = missing \<or> val y = missing \<longrightarrow>
        mag rnd missing (Scalar (Some x)) (Scalar (Some y)) = Inr (Scalar None))"
proof -
  have 1: "val x \<noteq> missing \<and> val y \<noteq> missing
      \<and> isfinite (fmul rnd x x) \<and> isfinite (fmul rnd y y)
      \<and> isfinite (fadd rnd (fmul rnd x x) (fmul rnd y y)) \<longrightarrow>
      mag rnd missing (Scalar (Some x)) (Scalar (Some y))
      = Inr (Scalar (Some (fsqrt rnd (fadd rnd (fmul rnd x x) (fmul rnd y y)))))"
    using mag_scalar_present [OF assms] by blast
  have 2: "val x \<noteq> missing \<and> val y \<noteq> missing \<and> (val x)\<^sup>2 + (val y)\<^sup>2 \<le> max_float64 \<longrightarrow>
      mag exact missing (Scalar (Some x)) (Scalar (Some y))
      = Inr (Scalar (Some (F (sqrt ((val x)\<^sup>2 + (val y)\<^sup>2)))))"
    using mag_scalar_exact by blast
  have 3: "length us = length vs \<and> i < length us
        \<and> \<not> mask (us ! i) \<and> \<not> mask (vs ! i)
        \<and> val (data (us ! i)) \<noteq> missing \<and> val (data (vs ! i)) \<noteq> missing
        \<and> (val (data (us ! i)))\<^sup>2 + (val (data (vs ! i)))\<^sup>2 \<le> max_float64 \<longrightarrow>
        (\<exists>rs. mag exact missing (Field us) (Field vs) = Inr (Field rs) \<and> length rs = length us
            \<and> rs ! i = plain (sqrt ((val (data (us ! i)))\<^sup>2 + (val (data (vs ! i)))\<^sup>2)))"
    using mag_field_exact by blast
  have 4: "\<not> isfinite (fmul rnd x x) \<or> \<not> isfinite (fmul rnd y y)
        \<or> \<not> isfinite (fadd rnd (fmul rnd x x) (fmul rnd y y)) \<longrightarrow>
        mag rnd missing (Scalar (Some x)) (Scalar (Some y)) = Inr (Scalar None)"
    using mag_scalar_overflow by blast
  have 5: "missing \<noteq> 0 \<longrightarrow>
        mag exact missing (Scalar (Some (F 0))) (Scalar (Some (F 0))) = Inr (Scalar (Some (F 0)))
        \<and> mag binary64 missing (Scalar (Some (F 0))) (Scalar (Some (F 0))) = Inr (Scalar (Some (F 0)))"
    using mag_zero by blast
  have 6: "val x = missing \<or> val y = missing \<longrightarrow>
        mag rnd missing (Scalar (Some x)) (Scalar (Some y)) = Inr (Scalar None)"
    using mag_scalar_missing [of missing "Some x" "Some y" rnd] by (simp add: is_missing_def)
  from 1 2 3 4 5 6 mag_nonneg [OF assms, of missing u v r rs'] show ?thesis by blast
qed

text \<open>
  Claim C4 as stated covers every pair of numbers: \<open>mag(2.0**700, 2.0**700)\<close> has
  two finite arguments that are not the sentinel, \<open>u**2\<close> overflows, \<open>**\<close> masks the
  result, and \<open>mag\<close> returns masked.
\<close>

lemma huge_square: "\<not> isfinite (fmul binary64 (F (2 ^ 700)) (F (2 ^ 700)))"
proof -
  have "(0::real) < 2 ^ 700 * 2 ^ 700" by simp
  from binary64_half [OF this] have "(2::real) ^ 1399 \<le> binary64 (2 ^ 700 * 2 ^ 700)"
    by simp
  moreover have "max_float64 < 2 ^ 1399"
    using max_float64_bounds(2) by (rule less_trans) simp
  ultimately have "max_float64 < \<bar>binary64 (2 ^ 700 * 2 ^ 700)\<bar>" by linarith
  then show ?thesis by (simp add: isfinite_def val_fmul not_le)
qed

theorem mag_overflow_counterexample:
  "mag binary64 (- 9999) (Scalar (Some (F (2 ^ 700)))) (Scalar (Some (F (2 ^ 700))))
   = Inr (Scalar None)"
  using huge_square by (intro mag_scalar_overflow) simp

theorem mag_formula_witness:
  "mag exact (- 9999) (Scalar (Some (F 3))) (Scalar (Some (F 4))) = Inr (Scalar (Some (F 5)))
   \<and> (0::real) \<le> 5
   \<and> mag exact (- 9999) (Scalar (Some (F 0))) (Scalar (Some (F 0))) = Inr (Scalar (Some (F 0)))
   \<and> mag exact (- 9999) (Scalar (Some (F (- 9999)))) (Scalar (Some (F 4))) = Inr (Scalar None)
   \<and> (\<exists>rs. mag exact (- 9999) (Field [plain 3, plain (- 9999)]) (Field [plain 4, plain 1]) = Inr (Field rs)
         \<and> length rs = 2 \<and> rs ! 0 = plain 5)"
proof -
  have s: "sqrt (3\<^sup>2 + 4\<^sup>2) = (5::real)"
    by (rule real_sqrt_unique) simp_all
  have m: "(25::real) \<le> max_float64" using max_float64_bounds(1) by (simp add: max_float64_def)
  have e: "\<forall>r\<ge>0. 0 \<le> exact r" by (simp add: exact_def)
  show ?thesis
    using mag_formula [OF e, of "F 3" "- 9999" "F 4" "[plain 3, plain (- 9999)]" "[plain 4, plain 1]" 0
        "Scalar (Some (F 3))" "Scalar (Some (F 4))" "F 5" "[]"]
      mag_formula [OF e, of "F (- 9999)" "- 9999" "F 4" "[]" "[]" 0 "Scalar None" "Scalar None" "F 0" "[]"]
      m
    by (simp add: s plain_def numeral_2_eq_2)
qed

section \<open>comp2vec\<close>

lemma comp2vec_Scalar_Scalar:
  "comp2vec rnd TOL MISSING missing (Scalar a) (Scalar b) =
     (let w = of_elem (wdir0 rnd (to_elem a) (to_elem b))
      in if is_missing missing a \<or> is_missing missing b then Inr (Scalar None, Scalar None)
         else let w1 = of_elem (add360 rnd (to_elem w));
                  w2 = snap0 TOL w1
              in case mag rnd MISSING (Scalar a) (Scalar b) of
                   Inl e \<Rightarrow> Inl e
                 | Inr s \<Rightarrow> Inr (Scalar w2, s))"
  by (cases a) (simp_all add: comp2vec_def)

lemma comp2vec_Field_Scalar:
  "comp2vec rnd TOL MISSING missing (Field us) (Scalar (Some y)) =
     (let ws = map (\<lambda>a. comp2vec_pos rnd TOL missing a (to_elem (Some y))) us
      in case mag rnd MISSING (Field (map (mask_missing missing) us))
                              (Scalar (of_elem (mask_missing missing (to_elem (Some y))))) of
           Inl e \<Rightarrow> Inl e
         | Inr s \<Rightarrow> Inr (Field ws, s))"
  by (simp add: comp2vec_def)

lemma comp2vec_Field_Field:
  "comp2vec rnd TOL MISSING missing (Field us) (Field vs) =
     (if length us \<noteq> length vs then
        (if length us \<noteq> 1 \<and> length vs \<noteq> 1 then Inl ValueError else Inl IndexError)
      else
        (let ws = map (\<lambda>(a, b). comp2vec_pos rnd TOL missing a b) (zip us vs)
         in case mag rnd MISSING (Field (map (mask_missing missing) us))
                                 (Field (map (mask_missing missing) vs)) of
              Inl e \<Rightarrow> Inl e
            | Inr s \<Rightarrow> Inr (Field ws, s)))"
  by (simp add: comp2vec_def)

lemma comp2vec_scalar_missing:
  assumes "is_missing missing a \<or> is_missing missing b"
  shows "comp2vec rnd TOL MISSING missing (Scalar a) (Scalar b) = Inr (Scalar None, Scalar None)"
  using assms by (auto simp add: comp2vec_Scalar_Scalar Let_def)

text \<open>The logged path returns what \<open>comp2vec\<close> returns.\<close>

lemma comp2vec_logged_result:
  "snd (comp2vec_logged rnd TOL MISSING missing a b)
   = comp2vec rnd TOL MISSING missing (Scalar a) (Scalar b)"
  by (simp add: comp2vec_logged_def comp2vec_Scalar_Scalar Let_def)

text \<open>
  Claim C6, as amended. With two 0-dimensional arguments of which one is a number equal to
  the sentinel, \<open>comp2vec\<close> returns the masked constant for the direction and for the
  speed (line 257), whatever the other argument, the tolerance and the rounding are. By
  then \<open>np.arctan2\<close> and \<open>np.degrees\<close> have been called (line 247) and their value is
  dropped; the normalisation, \<open>np.fabs\<close> and \<open>mag\<close> (lines 258-262) are not reached.
\<close>

theorem comp2vec_scalar_short_circuit:
  assumes "val x = missing"
  shows "comp2vec_logged rnd TOL MISSING missing (Some x) b
           = ([Call_arctan2, Call_degrees], Inr (Scalar None, Scalar None))
       \<and> comp2vec_logged rnd TOL MISSING missing a (Some x)
           = ([Call_arctan2, Call_degrees], Inr (Scalar None, Scalar None))
       \<and> comp2vec rnd TOL MISSING missing (Scalar (Some x)) (Scalar b) = Inr (Scalar None, Scalar None)
       \<and> comp2vec rnd TOL MISSING missing (Scalar a) (Scalar (Some x)) = Inr (Scalar None, Scalar None)"
  using assms comp2vec_scalar_missing [of missing "Some x" b rnd TOL MISSING]
    comp2vec_scalar_missing [of missing a "Some x" rnd TOL MISSING]
  by (simp add: is_missing_def comp2vec_logged_def Let_def)

theorem comp2vec_scalar_short_circuit_witness:
  "comp2vec_logged binary64 (1 / 10 ^ 10) (- 9999) (- 9999) (Some (F 5)) (Some (F (- 9999)))
     = ([Call_arctan2, Call_degrees], Inr (Scalar None, Scalar None))
   \<and> comp2vec binary64 (1 / 10 ^ 10) (- 9999) (- 9999) (Scalar (Some (F 5))) (Scalar (Some (F (- 9999))))
     = Inr (Scalar None, Scalar None)"
  using comp2vec_scalar_short_circuit [of "F (- 9999)" "- 9999" binary64 "1 / 10 ^ 10" "- 9999" "Some (F 5)" "Some (F 5)"]
  by simp

text \<open>
  Claim C6 as stated has the pair returned without the trigonometric functions being
  evaluated: at \<open>comp2vec(MISSING, 5)\<close> the calls made before the return are
  \<open>np.arctan2\<close> and \<open>np.degrees\<close>, since line 247 comes before the test of line 256.
\<close>

theorem comp2vec_trig_before_test_counterexample:
  "fst (comp2vec_logged binary64 (1 / 10 ^ 10) (- 9999) (- 9999) (Some (F (- 9999))) (Some (F 5)))
   = [Call_arctan2, Call_degrees]"
  by (simp add: comp2vec_logged_def is_missing_def Let_def)

text \<open>Without a sentinel among the arguments the path runs to the end.\<close>

lemma comp2vec_logged_present:
  assumes "\<not> is_missing missing a" "\<not> is_missing missing b"
  shows "fst (comp2vec_logged rnd TOL MISSING missing a b)
         = [Call_arctan2, Call_degrees, Call_fabs, Call_mag]"
  using assms by (simp add: comp2vec_logged_def Let_def)

lemma wdir0_zero_exact:
  "wdir0 exact (plain 0) (plain 0) = plain (- 180)"
  by (simp add: wdir0_def np_ufunc_def np_ufunc2_def plain_def farctan2_def fdegrees_def fmul_def
      exact_def Let_def)

lemma comp2vec_zero_exact:
  assumes "missing \<noteq> 0" "MISSING \<noteq> 0" "TOL \<le> 180"
  shows "comp2vec exact TOL MISSING missing (Scalar (Some (F 0))) (Scalar (Some (F 0)))
         = Inr (Scalar (Some (F 180)), Scalar (Some (F 0)))"
proof -
  have w: "wdir0 exact (to_elem (Some (F 0))) (to_elem (Some (F 0))) = plain (- 180)"
    using wdir0_zero_exact by (simp add: to_elem_def plain_def)
  have m: "mag exact MISSING (Scalar (Some (F 0))) (Scalar (Some (F 0))) = Inr (Scalar (Some (F 0)))"
    using assms(2) by (rule mag_zero(1))
  have a: "of_elem (add360 exact (to_elem (of_elem (plain (- 180))))) = Some (F 180)"
    by (simp add: add360_def to_elem_def of_elem_def plain_def fadd_def exact_def)
  have s: "snap0 TOL (Some (F 180)) = Some (F 180)"
    using assms(3) by (simp add: snap0_def fabs_def)
  show ?thesis
    using assms(1) by (simp add: comp2vec_Scalar_Scalar Let_def w m a s is_missing_def)
qed

text \<open>
  Claim C9. For the numbers \<open>u = 0\<close> and \<open>v = 0\<close> (positive zeros, as the Python
  literals are), sentinels other than \<open>0\<close> and a tolerance of at most \<open>180\<close>,
  \<open>comp2vec\<close> returns the direction \<open>180\<close> and the speed \<open>0\<close>: the arguments of
  \<open>arctan2\<close> are the negative zeros, its value is \<open>-pi\<close>, and \<open>360\<close> is added to
  \<open>-180\<close>.
\<close>

theorem comp2vec_zero_vector:
  assumes "missing \<noteq> 0" "MISSING \<noteq> 0" "TOL \<le> 180"
  shows "comp2vec exact TOL MISSING missing (Scalar (Some (F 0))) (Scalar (Some (F 0)))
         = Inr (Scalar (Some (F 180)), Scalar (Some (F 0)))"
  using assms by (rule comp2vec_zero_exact)

theorem comp2vec_zero_vector_witness:
  "comp2vec exact (1 / 10 ^ 10) (- 9999) (- 9999) (Scalar (Some (F 0))) (Scalar (Some (F 0)))
         = Inr (Scalar (Some (F 180)), Scalar (Some (F 0)))"
  using comp2vec_zero_vector [of "- 9999" "- 9999" "1 / 10 ^ 10"] by simp

text \<open>With negative zeros as arguments the direction is \<open>0\<close>.\<close>

lemma comp2vec_negative_zero:
  assumes "missing \<noteq> 0" "MISSING \<noteq> 0" "0 < TOL"
  shows "comp2vec exact TOL MISSING missing (Scalar (Some NegZero)) (Scalar (Some NegZero))
         = Inr (Scalar (Some (F 0)), Scalar (Some (F 0)))"
proof -
  have w: "wdir0 exact (to_elem (Some NegZero)) (to_elem (Some NegZero)) = plain 0"
    by (simp add: wdir0_def np_ufunc_def np_ufunc2_def plain_def farctan2_def fdegrees_def fmul_def
      exact_def Let_def to_elem_def)
  have "0 \<le> max_float64" using max_float64_bounds(1) by linarith
  then have m: "mag exact MISSING (Scalar (Some NegZero)) (Scalar (Some NegZero)) = Inr (Scalar (Some (F 0)))"
    using assms(2) mag_scalar_exact [of NegZero MISSING NegZero] by simp
  have a: "of_elem (add360 exact (to_elem (of_elem (plain 0)))) = Some (F 0)"
    by (simp add: add360_def to_elem_def of_elem_def plain_def)
  have s: "snap0 TOL (Some (F 0)) = Some (F 0)"
    by (simp add: snap0_def)
  show ?thesis
    using assms(1) by (simp add: comp2vec_Scalar_Scalar Let_def w m a s is_missing_def)
qed

subsection \<open>Shapes\<close>

text \<open>
  \<open>vec2comp\<close> fails on line 197 whenever the shapes differ; \<open>comp2vec\<close> has no such
  line. Two fields of different lengths still fail in \<open>comp2vec\<close>, inside numpy.
\<close>

lemma vec2comp_shape_mismatch:
  "vec2comp rnd TOL missing (Field ds) (Scalar b) = Inl AssertionError"
  "vec2comp rnd TOL missing (Scalar a) (Field ss) = Inl AssertionError"
  "length ds \<noteq> length ss \<Longrightarrow> vec2comp rnd TOL missing (Field ds) (Field ss) = Inl AssertionError"
  by (simp_all add: vec2comp_def)

lemma vec2comp_shape_example:
  "vec2comp rnd TOL missing (Field [plain 0, plain 90]) (Field [plain 5]) = Inl AssertionError"
  by (simp add: vec2comp_shape_mismatch)

lemma comp2vec_length_mismatch:
  "length us \<noteq> length vs \<Longrightarrow>
     comp2vec rnd TOL MISSING missing (Field us) (Field vs) = Inl ValueError
   \<or> comp2vec rnd TOL MISSING missing (Field us) (Field vs) = Inl IndexError"
  by (simp add: comp2vec_Field_Field)

text \<open>
  Claim C7, at the input \<open>comp2vec([0., 0.], 1.)\<close>: a field and a number. The claim has
  the call fail with a shape error; the number is broadcast over the field and the call
  returns the directions \<open>[180, 180]\<close> and the speeds \<open>[1, 1]\<close>.
\<close>

theorem comp2vec_field_scalar_returns:
  "comp2vec exact (1 / 10 ^ 10) (- 9999) (- 9999) (Field [plain 0, plain 0]) (Scalar (Some (F 1)))
   = Inr (Field [plain 180, plain 180], Field [plain 1, plain 1])"
proof -
  have w: "wdir0 exact (plain 0) (to_elem (Some (F 1))) = plain (- 180)"
    by (simp add: wdir0_def np_ufunc_def np_ufunc2_def plain_def farctan2_def fdegrees_def fmul_def
      exact_def Let_def to_elem_def)
  have p: "comp2vec_pos exact (1 / 10 ^ 10) (- 9999) (plain 0) (to_elem (Some (F 1))) = plain 180"
    unfolding comp2vec_pos_def Let_def w
    by (simp add: mask_where_def mask_missing_def add360_def snap_elem_def plain_def to_elem_def
        fadd_def fabs_def exact_def)
  have "(1::real) \<le> max_float64" by (rule max_float64_bounds(1))
  then have q: "mag_pos exact (- 9999) (plain 0) (plain 1) = plain 1"
    by (subst mag_pos_exact) (simp_all add: plain_def)
  have m: "mag exact (- 9999) (Field (map (mask_missing (- 9999)) [plain 0, plain 0]))
             (Scalar (of_elem (mask_missing (- 9999) (to_elem (Some (F 1))))))
           = Inr (Field [plain 1, plain 1])"
    using q by (simp add: mag_def Let_def mask_missing_def to_elem_def of_elem_def plain_def)
  from p m show ?thesis
    by (simp add: comp2vec_Field_Scalar Let_def)
qed

section \<open>Exact arithmetic: the angle of a vector\<close>



lemma atan2r_range: "- pi \<le> atan2r y x \<and> atan2r y x \<le> pi"
proof -
  have b: "- (pi / 2) < arctan (y / x)" "arctan (y / x) < pi / 2"
    using arctan_bounded [of "y / x"] by simp_all
  show ?thesis
  proof (cases "0 < x")
    case True
    then show ?thesis using b by (simp add: atan2r_def)
  next
    case False
    show ?thesis
    proof (cases "x < 0")
      case True
      show ?thesis
      proof (cases "0 \<le> y")
        case y: True
        then have "y / x \<le> 0" using True by (simp add: divide_le_0_iff)
        then have "arctan (y / x) \<le> 0" by simp
        then show ?thesis using True y b by (simp add: atan2r_def)
      next
        case y: False
        then have "0 < y / x" using True by (simp add: zero_less_divide_iff)
        then have "0 < arctan (y / x)" by simp
        then show ?thesis using True y b by (simp add: atan2r_def)
      qed
    next
      case F2: False
      have "atan2r y x = pi / 2 \<or> atan2r y x = - (pi / 2) \<or> atan2r y x = 0"
        using False F2 by (simp add: atan2r_def)
      then show ?thesis using pi_gt_zero by linarith
    qed
  qed
qed

lemma farctan2_range: "- pi \<le> val (farctan2 exact y x) \<and> val (farctan2 exact y x) \<le> pi"
  using atan2r_range [of "val y" "val x"]
  by (simp add: farctan2_def exact_def)

lemma val_fdegrees: "val (fdegrees exact x) = val x * (180 / pi)"
  by (simp add: fdegrees_def val_fmul exact_def)

lemma wdir0_range:
  "- 180 \<le> val (data (wdir0 exact u v)) \<and> val (data (wdir0 exact u v)) \<le> 180"
proof -
  let ?a = "val (farctan2 exact (fneg (data u)) (fneg (data v)))"
  have v: "val (data (wdir0 exact u v)) = ?a * (180 / pi)"
    by (simp add: wdir0_def np_ufunc_def np_ufunc2_def val_fdegrees)
  have r: "- pi \<le> ?a" "?a \<le> pi" using farctan2_range by simp_all
  have "- pi * (180 / pi) \<le> ?a * (180 / pi)"
    using r(1) by (intro mult_right_mono) simp_all
  moreover have "?a * (180 / pi) \<le> pi * (180 / pi)"
    using r(2) by (intro mult_right_mono) simp_all
  ultimately show ?thesis unfolding v by simp
qed

lemma snap_norm360_range:
  assumes "- 180 \<le> w" "w \<le> 180"
  shows "0 \<le> snap TOL (norm360 w)" "snap TOL (norm360 w) < 360"
  using assms by (simp_all add: snap_def norm360_def)

lemma comp2vec_scalar_exact:
  assumes "0 < TOL" "val x \<noteq> missing" "val y \<noteq> missing"
    "val x \<noteq> MISSING" "val y \<noteq> MISSING" "(val x)\<^sup>2 + (val y)\<^sup>2 \<le> max_float64"
  shows "comp2vec exact TOL MISSING missing (Scalar (Some x)) (Scalar (Some y))
         = Inr (Scalar (Some (F (snap TOL (norm360 (val (data (wdir0 exact (to_elem (Some x)) (to_elem (Some y))))))))),
                Scalar (Some (F (sqrt ((val x)\<^sup>2 + (val y)\<^sup>2)))))"
proof -
  let ?w = "wdir0 exact (to_elem (Some x)) (to_elem (Some y))"
  have m: "\<not> mask ?w" by (simp add: wdir0_def np_ufunc_def np_ufunc2_def to_elem_def)
  have a: "val (data (add360 exact (to_elem (of_elem ?w)))) = norm360 (val (data ?w))"
    "\<not> mask (add360 exact (to_elem (of_elem ?w)))"
    using m by (simp_all add: add360_def to_elem_def of_elem_def fadd_def norm360_def exact_def)
  have s: "snap0 TOL (of_elem (add360 exact (to_elem (of_elem ?w))))
           = Some (F (snap TOL (norm360 (val (data ?w)))))"
    using a snap0_exact [OF assms(1)] by (simp add: of_elem_def)
  show ?thesis
    using assms(2,3) s mag_scalar_exact [OF assms(4,5,6)]
    by (simp add: comp2vec_Scalar_Scalar Let_def is_missing_def)
qed

lemma comp2vec_scalar_range:
  assumes "0 < TOL" "val x \<noteq> missing" "val y \<noteq> missing"
    "val x \<noteq> MISSING" "val y \<noteq> MISSING" "(val x)\<^sup>2 + (val y)\<^sup>2 \<le> max_float64"
  shows "\<exists>w s. comp2vec exact TOL MISSING missing (Scalar (Some x)) (Scalar (Some y))
                 = Inr (Scalar (Some (F w)), Scalar (Some (F s)))
               \<and> 0 \<le> w \<and> w < 360 \<and> s = sqrt ((val x)\<^sup>2 + (val y)\<^sup>2)"
  using comp2vec_scalar_exact [OF assms]
    snap_norm360_range [of "val (data (wdir0 exact (to_elem (Some x)) (to_elem (Some y))))" TOL]
    wdir0_range [of "to_elem (Some x)" "to_elem (Some y)"]
  by simp

section \<open>Binary64 arithmetic: a direction of 360\<close>

lemma arctan_le_arg:
  fixes t :: real
  assumes "0 \<le> t"
  shows "arctan t \<le> t"
proof -
  have "0 - arctan 0 \<le> t - arctan t"
  proof (rule DERIV_nonneg_imp_nondecreasing [of 0 t "\<lambda>x. x - arctan x"])
    show "0 \<le> t" by (rule assms)
    fix x :: real
    have "DERIV (\<lambda>x. x - arctan x) x :> 1 - inverse (1 + x\<^sup>2)"
      by (auto intro!: derivative_eq_intros)
    moreover have "inverse (1 + x\<^sup>2) \<le> 1"
      by (rule inverse_le_1_iff [THEN iffD2]) simp
    ultimately show "\<exists>y. DERIV (\<lambda>x. x - arctan x) x :> y \<and> 0 \<le> y"
      by (intro exI [of _ "1 - inverse (1 + x\<^sup>2)"]) simp
  qed
  then show ?thesis by simp
qed

lemma degrees_tiny_negative:
  fixes t :: real
  assumes "0 < t"
  defines "r \<equiv> binary64 (binary64 (arctan (- t)) * binary64 (180 / pi))"
  shows "r < 0" "- (720 * t) \<le> r"
proof -
  define a where "a = binary64 (arctan (- t))"
  define c where "c = binary64 (180 / pi)"
  have A: "arctan (- t) < 0" "- t \<le> arctan (- t)"
    using assms(1) arctan_le_arg [of t] by (simp_all add: arctan_minus)
  have a: "a < 0" "- (2 * t) \<le> a"
    using binary64_neg [OF A(1)] A(2) by (simp_all add: a_def)
  have "0 < 180 / pi" by simp
  from binary64_pos [OF this] have c: "0 < c" "c \<le> 2 * (180 / pi)" by (simp_all add: c_def)
  have "180 / pi \<le> 180 / 2" using pi_ge_two by (intro divide_left_mono) simp_all
  with c(2) have c120: "c \<le> 180" by simp
  have ac: "a * c < 0" using a(1) c(1) by (simp add: mult_neg_pos)
  have "(2 * t) * c \<le> (2 * t) * 180" using assms(1) c120 by (intro mult_left_mono) simp_all
  moreover have "- a * c \<le> (2 * t) * c" using a(2) c(1) by (intro mult_right_mono) simp_all
  ultimately have lo: "- (360 * t) \<le> a * c" by (simp add: algebra_simps)
  have "r = binary64 (a * c)" by (simp add: r_def a_def c_def)
  with binary64_neg [OF ac] lo show "r < 0" "- (720 * t) \<le> r" by simp_all
qed

text \<open>
  Claim C3, at the input \<open>comp2vec(2**-70, -1.)\<close> in binary64 arithmetic, with
  \<open>MISSING = -9999\<close> and \<open>TOL = 1e-10\<close>. The claim has the direction in \<open>[0, 360)\<close>.
  \<open>degrees(arctan2(-u, -v))\<close> is a negative number of absolute value below \<open>1e-18\<close>;
  line 259 adds \<open>360\<close>, the sum rounds to \<open>360\<close>, which line 260 does not snap, and
  the function returns the direction \<open>360\<close>.
\<close>

theorem comp2vec_direction_360:
  "\<exists>s. comp2vec binary64 (1 / 10 ^ 10) (- 9999) (- 9999) (Scalar (Some (F (1 / 2 ^ 70)))) (Scalar (Some (F (- 1))))
        = Inr (Scalar (Some (F 360)), s)"
proof -
  define r where "r = binary64 (binary64 (arctan (- (1 / 2 ^ 70))) * binary64 (180 / pi))"
  have r: "r < 0" "- (720 * (1 / 2 ^ 70)) \<le> r"
    using degrees_tiny_negative [of "1 / 2 ^ 70"] by (simp_all add: r_def)
  have w: "wdir0 binary64 (to_elem (Some (F (1 / 2 ^ 70)))) (to_elem (Some (F (- 1))))
           = \<lparr>data = F r, mask = False\<rparr>"
    using r(1)
    by (simp add: wdir0_def np_ufunc_def np_ufunc2_def to_elem_def farctan2_def atan2r_def
        fdegrees_def fmul_def Let_def r_def)
  have "360 - 1 / 2 ^ 46 < r + 360" using r(2) by simp
  moreover have "r + 360 \<le> 360" using r(1) by simp
  ultimately have b: "binary64 (r + 360) = 360" by (rule binary64_360)
  have a: "of_elem (add360 binary64 (to_elem (of_elem \<lparr>data = F r, mask = False\<rparr>))) = Some (F 360)"
    using r(1) b by (simp add: add360_def to_elem_def of_elem_def fadd_def)
  have s: "snap0 (1 / 10 ^ 10) (Some (F 360)) = Some (F 360)"
    by (simp add: snap0_def fabs_def)
  obtain m where m: "mag binary64 (- 9999) (Scalar (Some (F (1 / 2 ^ 70)))) (Scalar (Some (F (- 1)))) = Inr m"
    by (simp add: mag_def is_missing_def)
  have "comp2vec binary64 (1 / 10 ^ 10) (- 9999) (- 9999) (Scalar (Some (F (1 / 2 ^ 70)))) (Scalar (Some (F (- 1))))
        = Inr (Scalar (Some (F 360)), m)"
    unfolding comp2vec_Scalar_Scalar Let_def w a s m by (simp add: is_missing_def)
  then show ?thesis by blast
qed

section \<open>The round trip\<close>






























text \<open>
  The other hypotheses are needed as well. A component equal to the sentinel is taken for
  missing on the way back: \<open>vec2comp(90, 9999)\<close> has \<open>u = -9999\<close>. With both components
  below the tolerance the direction is lost: \<open>vec2comp(90, 5e-11)\<close> is \<open>(0, 0)\<close>.
\<close>

lemma roundtrip_sentinel_collision:
  "roundtrip exact (1 / 10 ^ 10) (- 9999) (- 9999) (Scalar (Some (F 90))) (Scalar (Some (F 9999)))
   = Inr (Scalar None, Scalar None)"
proof -
  have "vec2comp exact (1 / 10 ^ 10) (- 9999) (Scalar (Some (F 90))) (Scalar (Some (F 9999)))
        = Inr (Scalar (Some (F (- 9999))), Scalar (Some (F 0)))"
    using vec2comp_scalar_exact [of "1 / 10 ^ 10" "F 90" "- 9999" "F 9999"]
    by (simp add: spec_u_90 spec_v_90 snap_def)
  moreover have "comp2vec exact (1 / 10 ^ 10) (- 9999) (- 9999) (Scalar (Some (F (- 9999)))) (Scalar (Some (F 0)))
         = Inr (Scalar None, Scalar None)"
    by (rule comp2vec_scalar_missing) (simp add: is_missing_def)
  ultimately show ?thesis by (simp add: roundtrip_def)
qed

lemma roundtrip_small_speed:
  "roundtrip exact (1 / 10 ^ 10) (- 9999) (- 9999) (Scalar (Some (F 90))) (Scalar (Some (F (1 / (2 * 10 ^ 10)))))
   = Inr (Scalar (Some (F 180)), Scalar (Some (F 0)))"
proof -
  have "vec2comp exact (1 / 10 ^ 10) (- 9999) (Scalar (Some (F 90))) (Scalar (Some (F (1 / (2 * 10 ^ 10)))))
        = Inr (Scalar (Some (F 0)), Scalar (Some (F 0)))"
    using vec2comp_scalar_exact [of "1 / 10 ^ 10" "F 90" "- 9999" "F (1 / (2 * 10 ^ 10))"]
    by (simp add: spec_u_90 spec_v_90 snap_def)
  moreover have "comp2vec exact (1 / 10 ^ 10) (- 9999) (- 9999) (Scalar (Some (F 0))) (Scalar (Some (F 0)))
         = Inr (Scalar (Some (F 180)), Scalar (Some (F 0)))"
    using comp2vec_zero_exact [of "- 9999" "- 9999" "1 / 10 ^ 10"] by simp
  ultimately show ?thesis by (simp add: roundtrip_def)
qed

end
